theory Spec2Isabelle
  imports Complex_Main
begin

section \<open>The platform\<close>

text \<open>
  The calculator computes on \<^verbatim>\<open>double\<close> and reads numbers with the C library's
  \<^verbatim>\<open>strtod\<close>. Neither belongs to the repository, so both are parameters of the model:
  a \<open>host\<close> supplies the value type \<open>'v\<close>, the arithmetic the evaluator calls, the
  literal \<^verbatim>\<open>0.0\<close>, the comparison \<^verbatim>\<open>==\<close>, and \<open>h_strtod\<close>, which maps a character
  sequence to the value read and the number of characters consumed
  (\<^verbatim>\<open>endptr - str\<close>).

  One more thing is left open by the language rather than by a library. The source of
  every binary operation is
  \<^verbatim>\<open>return op(pop_value(stack), pop_value(stack));\<close>
  (\<^verbatim>\<open>binary_operation\<close>). C++ does not say which of the two argument expressions
  is evaluated first: the initializations of the parameters of a call are
  indeterminately sequenced, and each compiler picks an order. Both calls pop the
  same stack, so which popped value becomes the first parameter \<open>a\<close> and which the
  second parameter \<open>b\<close> depends on that choice. The choice is the field \<open>h_order\<close>:
  with \<open>First_arg_first\<close> the value on top of the stack is \<open>a\<close>, with
  \<open>Second_arg_first\<close> it is \<open>b\<close>.
\<close>

datatype arg_order = First_arg_first | Second_arg_first

record 'v host =
  h_strtod :: "string \<Rightarrow> 'v \<times> nat"
  h_zero :: 'v
  h_eq :: "'v \<Rightarrow> 'v \<Rightarrow> bool"
  h_add :: "'v \<Rightarrow> 'v \<Rightarrow> 'v"
  h_sub :: "'v \<Rightarrow> 'v \<Rightarrow> 'v"
  h_mul :: "'v \<Rightarrow> 'v \<Rightarrow> 'v"
  h_div :: "'v \<Rightarrow> 'v \<Rightarrow> 'v"
  h_pow :: "'v \<Rightarrow> 'v \<Rightarrow> 'v"
  h_neg :: "'v \<Rightarrow> 'v"
  h_sqrt :: "'v \<Rightarrow> 'v"
  h_order :: arg_order

section \<open>Data\<close>

text \<open>\<^verbatim>\<open>enum class Operation\<close> and \<^verbatim>\<open>using Value = std::variant<Operation, std::string, double>\<close>.\<close>

datatype Operation = Op_un_min | Op_add | Op_sub | Op_mul | Op_div | Op_pow | Op_sqrt

datatype 'v Value = Oper Operation | Name string | Number 'v

text \<open>\<^verbatim>\<open>RPN_Builder::TokType\<close>.\<close>

datatype TokType =
  Tok_number | Tok_var | Tok_open | Tok_close | Tok_un_min | Tok_add | Tok_sub
  | Tok_mul | Tok_div | Tok_pow | Tok_sqrt | Tok_undefined

text \<open>\<^verbatim>\<open>struct Result\<close> of equation.h.\<close>

record 'v Result =
  what :: string
  result :: 'v
  ok :: bool

section \<open>Characters\<close>

text \<open>
  \<^verbatim>\<open>isspace\<close> and \<^verbatim>\<open>isdigit\<close> in the "C" locale (main.cpp installs a copy of the
  global locale, which changes nothing): space and the five controls 9..13; the ten
  decimal digits.
\<close>

definition isspace :: "char \<Rightarrow> bool" where
  "isspace c = (let n = (of_char c :: nat) in n = 32 \<or> (9 \<le> n \<and> n \<le> 13))"

definition isdigit :: "char \<Rightarrow> bool" where
  "isdigit c = (let n = (of_char c :: nat) in 48 \<le> n \<and> n \<le> 57)"

definition is_symbol_token :: "char \<Rightarrow> bool" where
  "is_symbol_token c = (c \<in> set ''-+*/^()'')"

section \<open>\<^verbatim>\<open>str_to_number\<close>\<close>

text \<open>
  The token is a \<^verbatim>\<open>std::string\<close> cut from a C string, so it holds no NUL and
  \<^verbatim>\<open>*endptr == '\0'\<close> says that \<^verbatim>\<open>strtod\<close> consumed all of it.
  \<open>None\<close> is the return value \<^verbatim>\<open>false\<close> (the out-parameter is left alone).
\<close>

definition str_to_number :: "'v host \<Rightarrow> string \<Rightarrow> 'v option" where
  "str_to_number h str =
     (case h_strtod h str of
        (temp_number, n) \<Rightarrow> if n \<noteq> 0 \<and> n = length str then Some temp_number else None)"

section \<open>\<^verbatim>\<open>getTokens\<close>\<close>

text \<open>
  The inner \<^verbatim>\<open>while (*c != '\0')\<close> loop. The list is what is left of the text from
  \<^verbatim>\<open>c\<close> on (without the terminator). \<^verbatim>\<open>start_token_character == c\<close> holds until
  the loop has consumed its first character and never again, so it is the flag
  \<open>at_start\<close>. The result is the token and the new \<^verbatim>\<open>c\<close>.
\<close>

fun token_loop :: "'v host \<Rightarrow> bool \<Rightarrow> string \<Rightarrow> string \<Rightarrow> string \<times> string" where
  "token_loop h at_start [] token = (token, [])"
| "token_loop h at_start (x # xs) token =
     (if at_start \<and> is_symbol_token x then (token @ [x], xs)
      else if at_start \<and> (isdigit x \<or> x = CHR ''.'') then
        (let token' = take (snd (h_strtod h (x # xs))) (x # xs)
         in (token', drop (length token') (x # xs)))
      else if isspace x \<or> is_symbol_token x then (token, x # xs)
      else token_loop h False xs (token @ [x]))"

text \<open>
  The outer \<^verbatim>\<open>while (*c != '\0')\<close> loop. Nothing in the source bounds it: when
  \<^verbatim>\<open>strtod\<close> consumes nothing at a decimal point, \<^verbatim>\<open>c\<close> does not move. So the
  loop is a partial function, and \<open>None\<close> means that it does not return.
\<close>

partial_function (option) tokens_loop :: "'v host \<Rightarrow> string \<Rightarrow> string list \<Rightarrow> string list option" where
  "tokens_loop h c tokens =
     (if c = [] then Some tokens
      else
        (case token_loop h True (dropWhile isspace c) [] of
           (token, c') \<Rightarrow> tokens_loop h c' (if token \<noteq> [] then tokens @ [token] else tokens)))"

text \<open>
  \<^verbatim>\<open>getTokens(const char* expression)\<close>: \<open>None\<close> as argument is the null pointer;
  a text is cut at its first NUL, as a C string is.
\<close>

definition getTokens :: "'v host \<Rightarrow> string option \<Rightarrow> string list option" where
  "getTokens h expression =
     (case expression of
        None \<Rightarrow> Some []
      | Some s \<Rightarrow> tokens_loop h (takeWhile (\<lambda>c. c \<noteq> CHR 0x00) s) [])"

section \<open>\<^verbatim>\<open>RPN_Builder\<close>\<close>

text \<open>The two tables filled by the constructor.\<close>

definition tokens_map :: "string \<Rightarrow> TokType option" where
  "tokens_map = map_of
     [(''('', Tok_open), ('')'', Tok_close), (''+'', Tok_add), (''-'', Tok_sub),
      (''*'', Tok_mul), (''/'', Tok_div), (''^'', Tok_pow), (''sqrt'', Tok_sqrt)]"

text \<open>
  \<^verbatim>\<open>prev_curr_token_map_\<close>: the constructor stores a set under each of the twelve
  token types, so \<^verbatim>\<open>at(prev_ttype)\<close> finds every key and the map is a total function.
\<close>

fun prev_curr_token_map :: "TokType \<Rightarrow> TokType set" where
  "prev_curr_token_map Tok_number = {Tok_add, Tok_sub, Tok_mul, Tok_div, Tok_pow, Tok_close}"
| "prev_curr_token_map Tok_var = {Tok_add, Tok_sub, Tok_mul, Tok_div, Tok_pow, Tok_close}"
| "prev_curr_token_map Tok_close = {Tok_add, Tok_sub, Tok_mul, Tok_div, Tok_pow, Tok_close}"
| "prev_curr_token_map Tok_un_min = {Tok_number, Tok_var, Tok_open, Tok_sqrt}"
| "prev_curr_token_map Tok_add = {Tok_number, Tok_var, Tok_open, Tok_sqrt}"
| "prev_curr_token_map Tok_sub = {Tok_number, Tok_var, Tok_open, Tok_sqrt}"
| "prev_curr_token_map Tok_mul = {Tok_number, Tok_var, Tok_open, Tok_sqrt}"
| "prev_curr_token_map Tok_div = {Tok_number, Tok_var, Tok_open, Tok_sqrt}"
| "prev_curr_token_map Tok_pow = {Tok_number, Tok_var, Tok_open, Tok_sqrt}"
| "prev_curr_token_map Tok_undefined = {Tok_number, Tok_var, Tok_open, Tok_un_min, Tok_sqrt}"
| "prev_curr_token_map Tok_open = {Tok_number, Tok_var, Tok_open, Tok_un_min, Tok_sqrt}"
| "prev_curr_token_map Tok_sqrt = {Tok_open}"

text \<open>
  What a call that may throw or return \<^verbatim>\<open>false\<close> does: \<open>Throw m\<close> is
  \<^verbatim>\<open>throw std::runtime_error(m)\<close>, \<open>Fail m\<close> is \<^verbatim>\<open>return false\<close> after
  \<^verbatim>\<open>what_happened_message_ = m\<close>, \<open>Go x\<close> is going on with \<open>x\<close>.
\<close>

datatype 'a outcome = Throw string | Fail string | Go 'a

definition incorrect_expression :: string where
  "incorrect_expression = ''Incorrect expression''"

text \<open>
  \<^verbatim>\<open>to_token_type\<close>: the type, and the number when there is one (the out-parameter
  \<^verbatim>\<open>number\<close>, which the caller has set to \<^verbatim>\<open>0.0\<close>).
\<close>

definition to_token_type :: "'v host \<Rightarrow> string \<Rightarrow> TokType \<times> 'v" where
  "to_token_type h token =
     (case tokens_map token of
        Some ttype \<Rightarrow> (ttype, h_zero h)
      | None \<Rightarrow>
          (case str_to_number h token of
             Some number \<Rightarrow> (Tok_number, number)
           | None \<Rightarrow> (Tok_var, h_zero h)))"

fun to_operation :: "TokType \<Rightarrow> string + Operation" where
  "to_operation Tok_un_min = Inr Op_un_min"
| "to_operation Tok_add = Inr Op_add"
| "to_operation Tok_sub = Inr Op_sub"
| "to_operation Tok_mul = Inr Op_mul"
| "to_operation Tok_div = Inr Op_div"
| "to_operation Tok_pow = Inr Op_pow"
| "to_operation Tok_sqrt = Inr Op_sqrt"
| "to_operation _ = Inl incorrect_expression"

fun priority :: "TokType \<Rightarrow> string + nat" where
  "priority Tok_open = Inr 0"
| "priority Tok_close = Inr 0"
| "priority Tok_add = Inr 1"
| "priority Tok_sub = Inr 1"
| "priority Tok_mul = Inr 2"
| "priority Tok_div = Inr 2"
| "priority Tok_pow = Inr 3"
| "priority Tok_un_min = Inr 4"
| "priority Tok_sqrt = Inr 5"
| "priority _ = Inl incorrect_expression"

definition is_correct_token_order :: "TokType \<Rightarrow> TokType \<Rightarrow> string + bool" where
  "is_correct_token_order prev_ttype curr_ttype =
     (if curr_ttype = Tok_undefined then Inl incorrect_expression
      else Inr (curr_ttype \<in> prev_curr_token_map prev_ttype))"

subsection \<open>The messages\<close>

definition extra_parentheses_happened :: "string \<Rightarrow> string" where
  "extra_parentheses_happened type = ''Found extra '' @ type @ '' parentheses.''"

definition quoted :: "string \<Rightarrow> string" where
  "quoted s = [CHR 0x27] @ s @ [CHR 0x27]"

fun ttype_to_str :: "TokType \<Rightarrow> string \<Rightarrow> string" where
  "ttype_to_str Tok_number token = ''number '' @ token"
| "ttype_to_str Tok_var token = ''variable '' @ token"
| "ttype_to_str Tok_open token = ''open parenthesis''"
| "ttype_to_str Tok_close token = ''close parenthesis''"
| "ttype_to_str Tok_un_min token = ''unary minus '' @ quoted ''-''"
| "ttype_to_str Tok_add token = ''addition sign '' @ quoted ''+''"
| "ttype_to_str Tok_sub token = ''subtraction sign '' @ quoted ''-''"
| "ttype_to_str Tok_mul token = ''multiplication sign '' @ quoted ''*''"
| "ttype_to_str Tok_div token = ''division sign '' @ quoted ''/''"
| "ttype_to_str Tok_pow token = ''power sign '' @ quoted ''^''"
| "ttype_to_str Tok_sqrt token = ''sqrt function''"
| "ttype_to_str Tok_undefined token = ''undefined''"

definition incorrect_token_order_happened ::
  "TokType \<Rightarrow> string \<Rightarrow> TokType \<Rightarrow> string \<Rightarrow> 'a outcome" where
  "incorrect_token_order_happened prev_ttype prev_token curr_ttype curr_token =
     (if curr_ttype = Tok_undefined then Throw incorrect_expression
      else Fail
        (''Incorrect order of operands and operations in the expression.'' @ [CHR 0x0A]
         @ ''The '' @ ttype_to_str curr_ttype curr_token @ '' cannot be ''
         @ (if prev_ttype = Tok_undefined then ''the first in an expression.''
            else ''after the '' @ ttype_to_str prev_ttype prev_token)))"

definition no_operands_found :: string where
  "no_operands_found = ''Expression does not contain any operands.''"

subsection \<open>\<^verbatim>\<open>RPN_Builder::operator()\<close>\<close>

text \<open>
  The variables that live across the iterations of the \<^verbatim>\<open>for\<close> loop. The stack
  \<^verbatim>\<open>operations\<close> is a list with its top at the head.
\<close>

record 'v scan =
  rp_notation :: "'v Value list"
  prev_token :: string
  prev_ttype :: TokType
  operations :: "TokType list"
  operand_count :: nat

definition scan_start :: "'v scan" where
  "scan_start =
     \<lparr>rp_notation = [], prev_token = [], prev_ttype = Tok_undefined,
      operations = [], operand_count = 0\<rparr>"

text \<open>
  Lines 316 to 320: the type of the current token, with a \<^verbatim>\<open>sub\<close> turned into
  \<^verbatim>\<open>un_min\<close> when \<^verbatim>\<open>maybe_un_min\<close> holds.
\<close>

definition curr_ttype_of :: "'v host \<Rightarrow> TokType \<Rightarrow> string \<Rightarrow> TokType" where
  "curr_ttype_of h prev token =
     (let curr_ttype = fst (to_token_type h token);
          maybe_un_min = (prev = Tok_undefined \<or> prev = Tok_open)
      in if maybe_un_min \<and> curr_ttype = Tok_sub then Tok_un_min else curr_ttype)"

text \<open>
  \<^verbatim>\<open>case TokType::close\<close>: the loop that pops to the output until the stack is
  empty or its top is an open parenthesis.
\<close>

fun close_loop :: "TokType list \<Rightarrow> 'v Value list \<Rightarrow> string + (TokType list \<times> 'v Value list)" where
  "close_loop [] rpn = Inr ([], rpn)"
| "close_loop (t # ops) rpn =
     (if t \<noteq> Tok_open then
        (case to_operation t of
           Inl e \<Rightarrow> Inl e
         | Inr value \<Rightarrow> close_loop ops (rpn @ [Oper value]))
      else Inr (t # ops, rpn))"

text \<open>
  The operator cases: \<^verbatim>\<open>while (top_prior >= curr_prior)\<close>, where \<^verbatim>\<open>top_prior\<close> is 0
  on an empty stack. \<^verbatim>\<open>curr_prior\<close> is the priority of one of the six operators,
  at least 1, so the loop stops on the empty stack.
\<close>

fun operator_loop :: "nat \<Rightarrow> TokType list \<Rightarrow> 'v Value list \<Rightarrow> string + (TokType list \<times> 'v Value list)" where
  "operator_loop curr_prior [] rpn = Inr ([], rpn)"
| "operator_loop curr_prior (t # ops) rpn =
     (case priority t of
        Inl e \<Rightarrow> Inl e
      | Inr top_prior \<Rightarrow>
          if top_prior \<ge> curr_prior then
            (case to_operation t of
               Inl e \<Rightarrow> Inl e
             | Inr value \<Rightarrow> operator_loop curr_prior ops (rpn @ [Oper value]))
          else Inr (t # ops, rpn))"

text \<open>The \<^verbatim>\<open>switch (curr_ttype)\<close>, on the stack and the output.\<close>

definition dispatch ::
  "TokType \<Rightarrow> string \<Rightarrow> 'v \<Rightarrow> 'v scan \<Rightarrow> 'v scan outcome" where
  "dispatch curr_ttype token number st =
     (if curr_ttype = Tok_number then
        Go (st\<lparr>rp_notation := rp_notation st @ [Number number],
               operand_count := operand_count st + 1\<rparr>)
      else if curr_ttype = Tok_var then
        Go (st\<lparr>rp_notation := rp_notation st @ [Name token],
               operand_count := operand_count st + 1\<rparr>)
      else if curr_ttype = Tok_sqrt \<or> curr_ttype = Tok_open then
        Go (st\<lparr>operations := curr_ttype # operations st\<rparr>)
      else if curr_ttype = Tok_close then
        (case close_loop (operations st) (rp_notation st) of
           Inl e \<Rightarrow> Throw e
         | Inr (ops, rpn) \<Rightarrow>
             if ops = [] then Fail (extra_parentheses_happened ''close'')
             else Go (st\<lparr>rp_notation := rpn, operations := tl ops\<rparr>))
      else if curr_ttype = Tok_undefined then Throw incorrect_expression
      else
        (case priority curr_ttype of
           Inl e \<Rightarrow> Throw e
         | Inr curr_prior \<Rightarrow>
             (case operator_loop curr_prior (operations st) (rp_notation st) of
                Inl e \<Rightarrow> Throw e
              | Inr (ops, rpn) \<Rightarrow>
                  Go (st\<lparr>rp_notation := rpn, operations := curr_ttype # ops\<rparr>))))"

text \<open>One iteration of the \<^verbatim>\<open>for\<close> loop.\<close>

definition process_token :: "'v host \<Rightarrow> string \<Rightarrow> 'v scan \<Rightarrow> 'v scan outcome" where
  "process_token h token st =
     (let number = snd (to_token_type h token);
          curr_ttype = curr_ttype_of h (prev_ttype st) token
      in case is_correct_token_order (prev_ttype st) curr_ttype of
           Inl e \<Rightarrow> Throw e
         | Inr False \<Rightarrow>
             incorrect_token_order_happened (prev_ttype st) (prev_token st) curr_ttype token
         | Inr True \<Rightarrow>
             (case dispatch curr_ttype token number st of
                Go st' \<Rightarrow> Go (st'\<lparr>prev_ttype := curr_ttype, prev_token := token\<rparr>)
              | Throw e \<Rightarrow> Throw e
              | Fail m \<Rightarrow> Fail m))"

fun for_tokens :: "'v host \<Rightarrow> string list \<Rightarrow> 'v scan \<Rightarrow> 'v scan outcome" where
  "for_tokens h [] st = Go st"
| "for_tokens h (token # tokens) st =
     (case process_token h token st of
        Go st' \<Rightarrow> for_tokens h tokens st'
      | Throw e \<Rightarrow> Throw e
      | Fail m \<Rightarrow> Fail m)"

text \<open>The last loop, \<^verbatim>\<open>while (!operations.empty())\<close>.\<close>

fun drain :: "TokType list \<Rightarrow> 'v Value list \<Rightarrow> (TokType list \<times> 'v Value list) outcome" where
  "drain [] rpn = Go ([], rpn)"
| "drain (t # ops) rpn =
     (if t = Tok_open then Fail (extra_parentheses_happened ''open'')
      else
        (case to_operation t of
           Inl e \<Rightarrow> Throw e
         | Inr value \<Rightarrow> drain ops (rpn @ [Oper value])))"

text \<open>
  The whole call. \<open>Go (ops, rpn)\<close> is \<^verbatim>\<open>return true\<close>: \<open>rpn\<close> is what
  \<^verbatim>\<open>reverse_polish_notation()\<close> then returns and \<open>ops\<close> is the operator stack as the
  call leaves it. \<open>Fail m\<close> is \<^verbatim>\<open>return false\<close> with \<^verbatim>\<open>what()\<close> equal to \<open>m\<close>.
\<close>

definition RPN_Builder :: "'v host \<Rightarrow> string list \<Rightarrow> (TokType list \<times> 'v Value list) outcome" where
  "RPN_Builder h expression_tokens =
     (case for_tokens h expression_tokens scan_start of
        Throw e \<Rightarrow> Throw e
      | Fail m \<Rightarrow> Fail m
      | Go st \<Rightarrow>
          if operand_count st = 0 then Fail no_operands_found
          else drain (operations st) (rp_notation st))"

section \<open>The evaluator\<close>

text \<open>The value stack is a list with its top at the head.\<close>

definition pop_value :: "'v list \<Rightarrow> string + ('v \<times> 'v list)" where
  "pop_value stack =
     (case stack of
        [] \<Rightarrow> Inl incorrect_expression
      | value # rest \<Rightarrow> Inr (value, rest))"

text \<open>
  \<^verbatim>\<open>binary_operation\<close>: \<open>a\<close> is the first parameter of \<^verbatim>\<open>op\<close> and \<open>b\<close> the second,
  whichever is popped first.
\<close>

definition binary_operation ::
  "arg_order \<Rightarrow> ('v \<Rightarrow> 'v \<Rightarrow> string + 'v) \<Rightarrow> 'v list \<Rightarrow> string + ('v \<times> 'v list)" where
  "binary_operation order op stack =
     (case order of
        First_arg_first \<Rightarrow>
          (case pop_value stack of
             Inl e \<Rightarrow> Inl e
           | Inr (a, stack1) \<Rightarrow>
               (case pop_value stack1 of
                  Inl e \<Rightarrow> Inl e
                | Inr (b, stack2) \<Rightarrow>
                    (case op a b of Inl e \<Rightarrow> Inl e | Inr r \<Rightarrow> Inr (r, stack2))))
      | Second_arg_first \<Rightarrow>
          (case pop_value stack of
             Inl e \<Rightarrow> Inl e
           | Inr (b, stack1) \<Rightarrow>
               (case pop_value stack1 of
                  Inl e \<Rightarrow> Inl e
                | Inr (a, stack2) \<Rightarrow>
                    (case op a b of Inl e \<Rightarrow> Inl e | Inr r \<Rightarrow> Inr (r, stack2)))))"

definition unary_operation :: "('v \<Rightarrow> 'v) \<Rightarrow> 'v list \<Rightarrow> string + ('v \<times> 'v list)" where
  "unary_operation op stack =
     (case pop_value stack of
        Inl e \<Rightarrow> Inl e
      | Inr (a, stack1) \<Rightarrow> Inr (op a, stack1))"

definition division_on_zero :: string where
  "division_on_zero = ''Divizion on zero is not defined''"

text \<open>
  \<^verbatim>\<open>double calculate(calc::Operation op, std::stack<double>& stack)\<close>: the result and
  the stack after the pops.
\<close>

fun calculate_op :: "'v host \<Rightarrow> Operation \<Rightarrow> 'v list \<Rightarrow> string + ('v \<times> 'v list)" where
  "calculate_op h Op_add stack =
     binary_operation (h_order h) (\<lambda>a b. Inr (h_add h a b)) stack"
| "calculate_op h Op_sub stack =
     binary_operation (h_order h) (\<lambda>a b. Inr (h_sub h a b)) stack"
| "calculate_op h Op_mul stack =
     binary_operation (h_order h) (\<lambda>a b. Inr (h_mul h a b)) stack"
| "calculate_op h Op_div stack =
     binary_operation (h_order h)
       (\<lambda>a b. if h_eq h b (h_zero h) then Inl division_on_zero else Inr (h_div h a b)) stack"
| "calculate_op h Op_pow stack =
     binary_operation (h_order h) (\<lambda>a b. Inr (h_pow h a b)) stack"
| "calculate_op h Op_un_min stack = unary_operation (h_neg h) stack"
| "calculate_op h Op_sqrt stack = unary_operation (h_sqrt h) stack"

text \<open>The \<^verbatim>\<open>for\<close> loop of \<^verbatim>\<open>calc::calculate\<close> with its three visitors.\<close>

fun visit_items :: "'v host \<Rightarrow> 'v Value list \<Rightarrow> 'v list \<Rightarrow> string + 'v list" where
  "visit_items h [] stack = Inr stack"
| "visit_items h (Oper arg # items) stack =
     (case calculate_op h arg stack of
        Inl e \<Rightarrow> Inl e
      | Inr (r, stack') \<Rightarrow> visit_items h items (r # stack'))"
| "visit_items h (Number arg # items) stack = visit_items h items (arg # stack)"
| "visit_items h (Name arg # items) stack = visit_items h items stack"

section \<open>\<^verbatim>\<open>calc::calculate\<close>\<close>

text \<open>
  What a call of the entry point does when the tokenizer returns: it returns a
  \<^verbatim>\<open>Result\<close>, or it evaluates \<^verbatim>\<open>stack.top()\<close> on an empty \<^verbatim>\<open>std::stack\<close>, which
  the language leaves undefined.
\<close>

datatype 'v finish = Returns "'v Result" | Top_of_empty_stack

definition after_tokens :: "'v host \<Rightarrow> string list \<Rightarrow> 'v finish" where
  "after_tokens h tokens =
     (case RPN_Builder h tokens of
        Throw e \<Rightarrow> Returns \<lparr>what = e, result = h_zero h, ok = False\<rparr>
      | Fail m \<Rightarrow> Returns \<lparr>what = incorrect_expression, result = h_zero h, ok = False\<rparr>
      | Go (ops, rpn) \<Rightarrow>
          (case visit_items h rpn [] of
             Inl e \<Rightarrow> Returns \<lparr>what = e, result = h_zero h, ok = False\<rparr>
           | Inr [] \<Rightarrow> Top_of_empty_stack
           | Inr (value # rest) \<Rightarrow> Returns \<lparr>what = [], result = value, ok = True\<rparr>))"

text \<open>\<open>None\<close>: the call does not return, because \<^verbatim>\<open>getTokens\<close> does not.\<close>

definition calculate :: "'v host \<Rightarrow> string option \<Rightarrow> 'v finish option" where
  "calculate h equation = map_option (after_tokens h) (getTokens h equation)"

section \<open>A reference platform\<close>

text \<open>
  A platform on which the examples of the specification can be run: the values are
  the real numbers with their exact arithmetic, and \<open>ideal_strtod\<close> reads an unsigned
  decimal literal, digits with at most one decimal point and at least one digit, as
  \<^verbatim>\<open>strtod\<close> does on such a text (it knows no exponent, no hexadecimal literal, no
  infinity and no NaN). On the small integers of the examples every operation of
  IEEE double arithmetic is exact, so \<^verbatim>\<open>double\<close> computes the same values. The power
  is repeated multiplication for a natural exponent, as \<^verbatim>\<open>pow\<close> is.
\<close>

definition digits_value :: "string \<Rightarrow> nat" where
  "digits_value ds = foldl (\<lambda>acc c. 10 * acc + (of_char c - 48)) 0 ds"

definition ideal_strtod :: "string \<Rightarrow> real \<times> nat" where
  "ideal_strtod s =
     (let int_part = takeWhile isdigit s;
          rest = dropWhile isdigit s;
          point = (rest \<noteq> [] \<and> hd rest = CHR ''.'');
          frac_part = (if point then takeWhile isdigit (tl rest) else [])
      in if int_part = [] \<and> frac_part = [] then (0, 0)
         else (real (digits_value (int_part @ frac_part)) / 10 ^ length frac_part,
               length int_part + (if point then 1 else 0) + length frac_part))"

definition ideal_pow :: "real \<Rightarrow> real \<Rightarrow> real" where
  "ideal_pow a b = (if 0 \<le> b \<and> b = real (nat \<lfloor>b\<rfloor>) then a ^ nat \<lfloor>b\<rfloor> else a powr b)"

definition ideal :: "arg_order \<Rightarrow> real host" where
  "ideal order =
     \<lparr>h_strtod = ideal_strtod, h_zero = 0, h_eq = (=),
      h_add = (+), h_sub = (-), h_mul = (*), h_div = (/),
      h_pow = ideal_pow, h_neg = uminus, h_sqrt = sqrt, h_order = order\<rparr>"

section \<open>What the operator stack can hold\<close>

text \<open>
  The token types that \<^verbatim>\<open>operations.push\<close> is ever called with: the two of
  \<^verbatim>\<open>case TokType::sqrt: case TokType::open:\<close> and the six operators.
\<close>

definition pushed :: "TokType set" where
  "pushed = {Tok_open, Tok_sqrt, Tok_un_min, Tok_add, Tok_sub, Tok_mul, Tok_div, Tok_pow}"

section \<open>Unfolding sets for running the model on a text\<close>

lemmas char_defs = isspace_def isdigit_def is_symbol_token_def

lemmas ideal_defs = ideal_def ideal_strtod_def digits_value_def ideal_pow_def

lemmas builder_defs =
  RPN_Builder_def scan_start_def process_token_def curr_ttype_of_def to_token_type_def
  tokens_map_def str_to_number_def is_correct_token_order_def dispatch_def
  incorrect_token_order_happened_def extra_parentheses_happened_def no_operands_found_def
  incorrect_expression_def quoted_def

lemmas eval_defs =
  pop_value_def binary_operation_def unary_operation_def division_on_zero_def
  incorrect_expression_def

section \<open>The tokenizer on blank text\<close>

lemma tokens_loop_blank:
  assumes "\<forall>c \<in> set s. isspace c"
  shows "tokens_loop h s tokens = Some tokens"
proof (cases s)
  case Nil
  then show ?thesis by (simp add: tokens_loop.simps)
next
  case (Cons x xs)
  from assms have "dropWhile isspace s = []" by simp
  then have "tokens_loop h s tokens = tokens_loop h [] tokens"
    using Cons by (subst tokens_loop.simps) simp
  then show ?thesis by (simp add: tokens_loop.simps)
qed

lemma getTokens_blank:
  assumes "\<forall>c \<in> set s. isspace c"
  shows "getTokens h (Some s) = Some []"
proof -
  have "\<forall>c \<in> set (takeWhile (\<lambda>c. c \<noteq> CHR 0x00) s). isspace c"
    using assms by (meson set_takeWhileD)
  then show ?thesis by (simp add: getTokens_def tokens_loop_blank)
qed

text \<open>
  When a pass of the outer loop neither moves \<^verbatim>\<open>c\<close> nor finds the end of the text,
  every later pass is the same pass: the loop does not return.
\<close>

lemma tokens_loop_stuck:
  assumes "c \<noteq> []" and "token_loop h True (dropWhile isspace c) [] = ([], c)"
  shows "tokens_loop h c tokens = None"
proof (cases "tokens_loop h c tokens")
  case None
  then show ?thesis .
next
  case (Some y)
  have "h' = h \<longrightarrow> c' \<noteq> c" if "tokens_loop h' c' tokens' = Some y'" for h' c' tokens' y'
  proof (rule tokens_loop.raw_induct
      [where P = "\<lambda>h' c' tokens' y'. h' = h \<longrightarrow> c' \<noteq> c", OF _ that])
    fix loop h' c' tokens' y'
    assume IH: "\<And>h' c' tokens' y'. loop h' c' tokens' = Some y' \<Longrightarrow> h' = h \<longrightarrow> c' \<noteq> c"
      and step: "(if c' = [] then Some tokens'
          else case token_loop h' True (dropWhile isspace c') [] of
            (token, c'') \<Rightarrow> loop h' c'' (if token \<noteq> [] then tokens' @ [token] else tokens'))
        = Some y'"
    show "h' = h \<longrightarrow> c' \<noteq> c"
    proof (intro impI notI)
      assume "h' = h" and "c' = c"
      with step assms have "loop h c tokens' = Some y'" by simp
      from IH [OF this] show False by simp
    qed
  qed
  from this [OF Some] show ?thesis by simp
qed

lemma getTokens_lone_point: "getTokens (ideal order) (Some ''.'') = None"
  by (simp add: getTokens_def tokens_loop_stuck char_defs ideal_defs)

lemma RPN_Builder_no_tokens: "RPN_Builder h [] = Fail no_operands_found"
  by (simp add: RPN_Builder_def scan_start_def)

section \<open>The classifier\<close>

lemma tokens_map_Some_iff:
  "tokens_map token = Some k \<longleftrightarrow>
     (token, k) \<in> {(''('', Tok_open), ('')'', Tok_close), (''+'', Tok_add), (''-'', Tok_sub),
                   (''*'', Tok_mul), (''/'', Tok_div), (''^'', Tok_pow), (''sqrt'', Tok_sqrt)}"
  by (auto simp: tokens_map_def split: if_splits)

lemma tokens_map_None_iff:
  "tokens_map token = None \<longleftrightarrow>
     token \<notin> {''('', '')'', ''+'', ''-'', ''*'', ''/'', ''^'', ''sqrt''}"
  by (auto simp: tokens_map_def split: if_splits)

lemma to_token_type_not_un_min: "fst (to_token_type h token) \<noteq> Tok_un_min"
  by (auto simp: to_token_type_def tokens_map_Some_iff split: option.splits)

lemma to_token_type_not_undefined: "fst (to_token_type h token) \<noteq> Tok_undefined"
  by (auto simp: to_token_type_def tokens_map_Some_iff split: option.splits)

section \<open>The operator stack during a scan\<close>

lemma to_operation_pushed:
  "t \<in> pushed \<Longrightarrow> t \<noteq> Tok_open \<Longrightarrow> \<exists>value. to_operation t = Inr value"
  by (auto simp: pushed_def)

lemma priority_pushed: "t \<in> pushed \<Longrightarrow> \<exists>p. priority t = Inr p"
  by (auto simp: pushed_def)

lemma close_loop_pushed:
  "set ops \<subseteq> pushed \<Longrightarrow>
     \<exists>ops' rpn'. close_loop ops rpn = Inr (ops', rpn') \<and> set ops' \<subseteq> pushed
        \<and> (ops' = [] \<longleftrightarrow> Tok_open \<notin> set ops)"
proof (induction ops arbitrary: rpn)
  case Nil
  then show ?case by simp
next
  case (Cons t ops)
  show ?case
  proof (cases "t = Tok_open")
    case True
    with Cons.prems show ?thesis by simp
  next
    case False
    with Cons.prems obtain v where v: "to_operation t = Inr v"
      using to_operation_pushed [of t] by auto
    from Cons.prems have "set ops \<subseteq> pushed" by simp
    from Cons.IH [OF this, of "rpn @ [Oper v]"] False v show ?thesis by auto
  qed
qed

lemma operator_loop_pushed:
  "set ops \<subseteq> pushed \<Longrightarrow> 0 < p \<Longrightarrow>
     \<exists>ops' rpn'. operator_loop p ops rpn = Inr (ops', rpn') \<and> set ops' \<subseteq> pushed"
proof (induction ops arbitrary: rpn)
  case Nil
  then show ?case by simp
next
  case (Cons t ops)
  from Cons.prems obtain q where q: "priority t = Inr q"
    using priority_pushed [of t] by auto
  show ?case
  proof (cases "q \<ge> p")
    case False
    with q Cons.prems show ?thesis by simp
  next
    case True
    show ?thesis
    proof (cases "t = Tok_open")
      case True
      with Cons.prems q \<open>q \<ge> p\<close> show ?thesis by simp
    next
      case False
      with Cons.prems obtain v where v: "to_operation t = Inr v"
        using to_operation_pushed [of t] by auto
      from Cons.prems have "set ops \<subseteq> pushed" by simp
      from Cons.IH [OF this \<open>0 < p\<close>, of "rpn @ [Oper v]"] True q v show ?thesis by auto
    qed
  qed
qed


lemma dispatch_pushed:
  assumes "set (operations st) \<subseteq> pushed"
    and "dispatch cur token number st = Go st'"
  shows "set (operations st') \<subseteq> pushed"
proof -
  consider "cur = Tok_number" | "cur = Tok_var" | "cur = Tok_sqrt \<or> cur = Tok_open"
    | "cur = Tok_close" | "cur = Tok_undefined"
    | "cur \<in> {Tok_un_min, Tok_add, Tok_sub, Tok_mul, Tok_div, Tok_pow}"
    by (cases cur) auto
  then show ?thesis
  proof cases
    case 1
    with assms show ?thesis by (auto simp: dispatch_def)
  next
    case 2
    with assms show ?thesis by (auto simp: dispatch_def)
  next
    case 3
    then have "cur \<in> pushed" by (auto simp: pushed_def)
    moreover from 3 assms(2) have "operations st' = cur # operations st"
      by (auto simp: dispatch_def)
    ultimately show ?thesis using assms(1) by simp
  next
    case 5
    with assms show ?thesis by (auto simp: dispatch_def)
  next
    case 4
    from close_loop_pushed [OF assms(1), of "rp_notation st"]
    obtain ops' rpn' where "close_loop (operations st) (rp_notation st) = Inr (ops', rpn')"
      and "set ops' \<subseteq> pushed" by blast
    with 4 assms(2) show ?thesis
      by (auto simp: dispatch_def split: if_splits dest: list.set_sel(2))
  next
    case 6
    then obtain p where p: "priority cur = Inr p" "0 < p" by auto
    from 6 have cur: "cur \<in> pushed" by (auto simp: pushed_def)
    from operator_loop_pushed [OF assms(1) p(2), of "rp_notation st"]
    obtain ops' rpn' where loop: "operator_loop p (operations st) (rp_notation st) = Inr (ops', rpn')"
      and ops': "set ops' \<subseteq> pushed" by blast
    from 6 p(1) loop assms(2) have "operations st' = cur # ops'"
      by (auto simp: dispatch_def)
    with cur ops' show ?thesis by simp
  qed
qed

lemma process_token_pushed:
  assumes "set (operations st) \<subseteq> pushed"
    and "process_token h token st = Go st'"
  shows "set (operations st') \<subseteq> pushed"
proof -
  from assms(2) obtain st1 cur number
    where "dispatch cur token number st = Go st1" and "operations st' = operations st1"
    by (auto simp: process_token_def Let_def incorrect_token_order_happened_def
        split: sum.splits bool.splits outcome.splits if_splits)
  with dispatch_pushed [OF assms(1)] show ?thesis by simp
qed

lemma for_tokens_pushed:
  "set (operations st) \<subseteq> pushed \<Longrightarrow> for_tokens h tokens st = Go st'
     \<Longrightarrow> set (operations st') \<subseteq> pushed"
proof (induction tokens arbitrary: st)
  case Nil
  then show ?case by simp
next
  case (Cons token tokens)
  then show ?case
    by (auto split: outcome.splits dest: process_token_pushed)
qed

lemma for_tokens_append:
  "for_tokens h (ts @ us) st =
     (case for_tokens h ts st of
        Go st' \<Rightarrow> for_tokens h us st' | Throw e \<Rightarrow> Throw e | Fail m \<Rightarrow> Fail m)"
  by (induction ts arbitrary: st) (auto split: outcome.splits)

lemma drain_open:
  "set ops \<subseteq> pushed \<Longrightarrow> Tok_open \<in> set ops
     \<Longrightarrow> drain ops rpn = Fail (extra_parentheses_happened ''open'')"
proof (induction ops arbitrary: rpn)
  case Nil
  then show ?case by simp
next
  case (Cons t ops)
  show ?case
  proof (cases "t = Tok_open")
    case True
    then show ?thesis by simp
  next
    case False
    with Cons.prems obtain v where "to_operation t = Inr v"
      using to_operation_pushed [of t] by auto
    with False Cons show ?thesis by auto
  qed
qed

lemma drain_leaves_empty: "drain ops rpn = Go (ops', rpn') \<Longrightarrow> ops' = []"
  by (induction ops arbitrary: rpn) (auto split: if_splits sum.splits)

section \<open>Blank input\<close>

text \<open>
  C8. For a null pointer, an empty text or a text of white space only, \<open>getTokens\<close>
  returns (it is not a failure) the empty token sequence; \<open>RPN_Builder\<close> on no
  tokens returns \<^verbatim>\<open>false\<close> with the no-operands message; and \<open>calculate\<close> returns a
  \<open>Result\<close> whose \<open>ok\<close> is false.
\<close>

theorem blank_input_no_operands:
  assumes "equation = None \<or> (\<exists>s. equation = Some s \<and> (\<forall>c \<in> set s. isspace c))"
  shows "getTokens h equation = Some []
    \<and> RPN_Builder h [] = Fail ''Expression does not contain any operands.''
    \<and> (\<exists>r. calculate h equation = Some (Returns r) \<and> ok r = False)"
proof -
  have tokens: "getTokens h equation = Some []"
    using assms by (auto simp: getTokens_blank) (simp add: getTokens_def)
  have builder: "RPN_Builder h [] = Fail ''Expression does not contain any operands.''"
    by (simp add: RPN_Builder_no_tokens no_operands_found_def)
  have "calculate h equation
      = Some (Returns \<lparr>what = incorrect_expression, result = h_zero h, ok = False\<rparr>)"
    by (simp add: calculate_def tokens after_tokens_def RPN_Builder_no_tokens)
  with tokens builder show ?thesis by simp
qed

theorem blank_input_no_operands_witness:
  "(isspace (CHR '' '') \<and> isspace (CHR 0x09))
   \<and> getTokens (ideal Second_arg_first) (Some [CHR '' '', CHR 0x09, CHR '' '']) = Some []
   \<and> (\<exists>r. calculate (ideal Second_arg_first) (Some [CHR '' '', CHR 0x09, CHR '' ''])
             = Some (Returns r) \<and> ok r = False)
   \<and> getTokens (ideal Second_arg_first) None = Some []
   \<and> (\<exists>r. calculate (ideal Second_arg_first) None = Some (Returns r) \<and> ok r = False)"
proof -
  have blank: "\<forall>c \<in> set [CHR '' '', CHR 0x09, CHR '' '']. isspace c"
    by (simp add: isspace_def)
  show ?thesis
    using blank_input_no_operands
        [of "Some [CHR '' '', CHR 0x09, CHR '' '']" "ideal Second_arg_first"]
      blank_input_no_operands [of None "ideal Second_arg_first"]
    by (simp add: isspace_def)
qed

section \<open>Classification of one token\<close>

text \<open>
  C9. \<open>to_token_type\<close> returns the type of the keyword or symbol when the token is
  exactly one of \<^verbatim>\<open>( ) + - * / ^ sqrt\<close>. For every other token it returns
  \<open>Tok_number\<close> exactly when \<^verbatim>\<open>strtod\<close> consumes the whole of a non-empty token, and
  then the number is the value \<^verbatim>\<open>strtod\<close> read; otherwise it returns \<open>Tok_var\<close>. In
  particular a token of which \<^verbatim>\<open>strtod\<close> consumes a proper prefix only is a
  variable, not a number.
\<close>

theorem to_token_type_keyword_or_whole_number:
  "(fst (to_token_type h ''('') = Tok_open \<and> fst (to_token_type h '')'') = Tok_close
    \<and> fst (to_token_type h ''+'') = Tok_add \<and> fst (to_token_type h ''-'') = Tok_sub
    \<and> fst (to_token_type h ''*'') = Tok_mul \<and> fst (to_token_type h ''/'') = Tok_div
    \<and> fst (to_token_type h ''^'') = Tok_pow \<and> fst (to_token_type h ''sqrt'') = Tok_sqrt)
   \<and> (token \<notin> {''('', '')'', ''+'', ''-'', ''*'', ''/'', ''^'', ''sqrt''} \<longrightarrow>
        (fst (to_token_type h token) = Tok_number
           \<longleftrightarrow> token \<noteq> [] \<and> snd (h_strtod h token) = length token)
        \<and> (fst (to_token_type h token) = Tok_number
             \<longrightarrow> snd (to_token_type h token) = fst (h_strtod h token))
        \<and> (fst (to_token_type h token) \<noteq> Tok_number
             \<longrightarrow> fst (to_token_type h token) = Tok_var)
        \<and> (snd (h_strtod h token) < length token
             \<longrightarrow> fst (to_token_type h token) = Tok_var))"
proof -
  have symbols:
    "fst (to_token_type h ''('') = Tok_open \<and> fst (to_token_type h '')'') = Tok_close
     \<and> fst (to_token_type h ''+'') = Tok_add \<and> fst (to_token_type h ''-'') = Tok_sub
     \<and> fst (to_token_type h ''*'') = Tok_mul \<and> fst (to_token_type h ''/'') = Tok_div
     \<and> fst (to_token_type h ''^'') = Tok_pow \<and> fst (to_token_type h ''sqrt'') = Tok_sqrt"
    by (simp add: to_token_type_def tokens_map_def)
  have others:
    "(fst (to_token_type h token) = Tok_number
        \<longleftrightarrow> token \<noteq> [] \<and> snd (h_strtod h token) = length token)
     \<and> (fst (to_token_type h token) = Tok_number
          \<longrightarrow> snd (to_token_type h token) = fst (h_strtod h token))
     \<and> (fst (to_token_type h token) \<noteq> Tok_number
          \<longrightarrow> fst (to_token_type h token) = Tok_var)
     \<and> (snd (h_strtod h token) < length token
          \<longrightarrow> fst (to_token_type h token) = Tok_var)"
    if "tokens_map token = None"
    using that
    by (cases "h_strtod h token")
       (auto simp: to_token_type_def str_to_number_def split: option.splits if_splits)
  show ?thesis
    using symbols others by (simp only: tokens_map_None_iff [symmetric]) blast
qed

theorem to_token_type_keyword_or_whole_number_witness:
  "''12ab'' \<notin> {''('', '')'', ''+'', ''-'', ''*'', ''/'', ''^'', ''sqrt''}
   \<and> snd (h_strtod (ideal Second_arg_first) ''12ab'') = 2
   \<and> to_token_type (ideal Second_arg_first) ''12ab'' = (Tok_var, 0)
   \<and> ''12.5'' \<notin> {''('', '')'', ''+'', ''-'', ''*'', ''/'', ''^'', ''sqrt''}
   \<and> snd (h_strtod (ideal Second_arg_first) ''12.5'') = length ''12.5''
   \<and> to_token_type (ideal Second_arg_first) ''12.5'' = (Tok_number, 25 / 2)"
proof -
  have prefix: "h_strtod (ideal Second_arg_first) ''12ab'' = (12, 2)"
    by (simp add: ideal_defs isdigit_def)
  have whole: "h_strtod (ideal Second_arg_first) ''12.5'' = (25 / 2, 4)"
    by (simp add: ideal_defs isdigit_def)
  have zero: "h_zero (ideal Second_arg_first) = 0"
    by (simp add: ideal_def)
  have var: "snd (to_token_type (ideal Second_arg_first) ''12ab'') = 0"
    by (simp add: to_token_type_def tokens_map_def str_to_number_def prefix zero)
  show ?thesis
    using to_token_type_keyword_or_whole_number [of "ideal Second_arg_first" "''12ab''"]
      to_token_type_keyword_or_whole_number [of "ideal Second_arg_first" "''12.5''"]
      prefix whole var
    by (simp add: prod_eq_iff)
qed

section \<open>An expression that is one variable\<close>

lemma RPN_Builder_lone_variable:
  assumes "fst (to_token_type h token) = Tok_var"
  shows "RPN_Builder h [token] = Go ([], [Name token])"
  using assms
  by (simp add: RPN_Builder_def scan_start_def process_token_def curr_ttype_of_def
      is_correct_token_order_def dispatch_def)

text \<open>
  C10. An expression whose only token is a variable is accepted by the builder, with
  the variable's name as the whole output; the evaluator's loop drops the name and
  leaves the value stack empty; and \<open>calculate\<close> then reads \<^verbatim>\<open>stack.top()\<close> of the empty
  stack, with no check before it.
\<close>

theorem lone_variable_reads_empty_stack:
  assumes "getTokens h equation = Some [token]"
    and "fst (to_token_type h token) = Tok_var"
  shows "RPN_Builder h [token] = Go ([], [Name token])
    \<and> visit_items h [Name token] [] = Inr []
    \<and> calculate h equation = Some Top_of_empty_stack"
  using assms
  by (simp add: calculate_def after_tokens_def RPN_Builder_lone_variable)

theorem lone_variable_reads_empty_stack_witness:
  "getTokens (ideal Second_arg_first) (Some ''x'') = Some [''x'']
   \<and> fst (to_token_type (ideal Second_arg_first) ''x'') = Tok_var
   \<and> RPN_Builder (ideal Second_arg_first) [''x''] = Go ([], [Name ''x''])
   \<and> visit_items (ideal Second_arg_first) [Name ''x''] [] = Inr []
   \<and> calculate (ideal Second_arg_first) (Some ''x'') = Some Top_of_empty_stack"
proof -
  have tokens: "getTokens (ideal Second_arg_first) (Some ''x'') = Some [''x'']"
    by (simp add: getTokens_def tokens_loop.simps char_defs)
  have var: "fst (to_token_type (ideal Second_arg_first) ''x'') = Tok_var"
    by (simp add: to_token_type_def tokens_map_def str_to_number_def ideal_defs isdigit_def)
  show ?thesis
    using tokens var lone_variable_reads_empty_stack [OF tokens var] by simp
qed

section \<open>Unmatched parentheses\<close>

lemma tokens_open_2_plus_3:
  "getTokens (ideal order) (Some ''(2 + 3'') = Some [''('', ''2'', ''+'', ''3'']"
  by (simp add: getTokens_def tokens_loop.simps char_defs ideal_defs Let_def)

lemma builder_open_2_plus_3:
  "RPN_Builder (ideal order) [''('', ''2'', ''+'', ''3''] = Fail ''Found extra open parentheses.''"
  by (simp add: builder_defs char_defs ideal_defs Let_def)

lemma tokens_2_plus_3_close:
  "getTokens (ideal order) (Some ''2 + 3)'') = Some [''2'', ''+'', ''3'', '')'']"
  by (simp add: getTokens_def tokens_loop.simps char_defs ideal_defs Let_def)

lemma scan_2_plus_3:
  "for_tokens (ideal order) [''2'', ''+'', ''3''] scan_start =
     Go \<lparr>rp_notation = [Number 2, Number 3], prev_token = ''3'', prev_ttype = Tok_number,
         operations = [Tok_add], operand_count = 2\<rparr>"
  by (simp add: builder_defs char_defs ideal_defs Let_def)

lemma builder_2_plus_3_close:
  "RPN_Builder (ideal order) [''2'', ''+'', ''3'', '')''] = Fail ''Found extra close parentheses.''"
  by (simp add: builder_defs char_defs ideal_defs Let_def)

lemma scan_open_2_plus_3:
  "for_tokens (ideal order) [''('', ''2'', ''+'', ''3''] scan_start =
     Go \<lparr>rp_notation = [Number 2, Number 3], prev_token = ''3'', prev_ttype = Tok_number,
         operations = [Tok_add, Tok_open], operand_count = 2\<rparr>"
  by (simp add: builder_defs char_defs ideal_defs Let_def)

lemma tokens_lone_open: "getTokens (ideal order) (Some ''('') = Some [''('']"
  by (simp add: getTokens_def tokens_loop.simps char_defs ideal_defs Let_def)

lemma scan_lone_open:
  "for_tokens (ideal order) [''(''] scan_start =
     Go \<lparr>rp_notation = [], prev_token = ''('', prev_ttype = Tok_open,
         operations = [Tok_open], operand_count = 0\<rparr>"
  by (simp add: builder_defs char_defs ideal_defs Let_def)

lemma failed_builder_not_ok:
  "RPN_Builder h tokens = Fail m \<Longrightarrow>
     after_tokens h tokens = Returns \<lparr>what = incorrect_expression, result = h_zero h, ok = False\<rparr>"
  by (simp add: after_tokens_def)

text \<open>
  C7, as stated, fails on the text \<^verbatim>\<open>(\<close>: after the scan the operator stack holds
  the open parenthesis, and yet the builder does not fail with the extra-open
  message, because \<^verbatim>\<open>operand_count == 0\<close> is tested before the stack is looked at.
\<close>

theorem lone_open_parenthesis_counterexample:
  "getTokens (ideal Second_arg_first) (Some ''('') = Some [''('']
   \<and> map_outcome operations (for_tokens (ideal Second_arg_first) [''(''] scan_start)
       = Go [Tok_open]
   \<and> RPN_Builder (ideal Second_arg_first) [''(''] = Fail ''Expression does not contain any operands.''
   \<and> RPN_Builder (ideal Second_arg_first) [''(''] \<noteq> Fail ''Found extra open parentheses.''"
  by (simp del: for_tokens.simps
      add: tokens_lone_open scan_lone_open RPN_Builder_def no_operands_found_def)

text \<open>
  C7, amended. A close parenthesis that may stand where it stands and finds no open
  parenthesis on the operator stack makes the builder fail with
  \<^verbatim>\<open>Found extra close parentheses.\<close> (so it does on \<^verbatim>\<open>2 + 3)\<close>, and
  \<open>calculate\<close> returns \<open>ok = False\<close>). After a scan that saw at least one operand,
  an open parenthesis left on the operator stack makes the builder fail with
  \<^verbatim>\<open>Found extra open parentheses.\<close> (so it does on \<^verbatim>\<open>(2 + 3\<close>, and \<open>calculate\<close>
  returns \<open>ok = False\<close>); after a scan that saw no operand the failure is the
  no-operands one, whatever the stack holds. The operator stack is empty when the
  scan starts, and empty again whenever the builder returns \<^verbatim>\<open>true\<close>.
\<close>

theorem parenthesis_mismatch:
  "(for_tokens h ts scan_start = Go st \<and> curr_ttype_of h (prev_ttype st) t = Tok_close
      \<and> Tok_close \<in> prev_curr_token_map (prev_ttype st) \<and> Tok_open \<notin> set (operations st)
      \<longrightarrow> RPN_Builder h (ts @ t # us) = Fail ''Found extra close parentheses.'')
   \<and> (for_tokens h ts scan_start = Go st \<and> operand_count st \<noteq> 0
        \<and> Tok_open \<in> set (operations st)
      \<longrightarrow> RPN_Builder h ts = Fail ''Found extra open parentheses.'')
   \<and> (for_tokens h ts scan_start = Go st \<and> operand_count st = 0
      \<longrightarrow> RPN_Builder h ts = Fail ''Expression does not contain any operands.'')
   \<and> operations (scan_start :: 'v scan) = []
   \<and> (RPN_Builder h ts = Go (ops, rpn) \<longrightarrow> ops = [])
   \<and> RPN_Builder (ideal order) [''2'', ''+'', ''3'', '')''] = Fail ''Found extra close parentheses.''
   \<and> (\<exists>r. calculate (ideal order) (Some ''2 + 3)'') = Some (Returns r) \<and> ok r = False)
   \<and> RPN_Builder (ideal order) [''('', ''2'', ''+'', ''3''] = Fail ''Found extra open parentheses.''
   \<and> (\<exists>r. calculate (ideal order) (Some ''(2 + 3'') = Some (Returns r) \<and> ok r = False)"
  for h :: "'v host"
proof -
  have start: "set (operations (scan_start :: 'v scan)) \<subseteq> pushed"
    by (simp add: scan_start_def)
  have close: "RPN_Builder h (ts @ t # us) = Fail ''Found extra close parentheses.''"
    if scan: "for_tokens h ts scan_start = Go st"
      and t: "curr_ttype_of h (prev_ttype st) t = Tok_close"
      and allowed: "Tok_close \<in> prev_curr_token_map (prev_ttype st)"
      and no_open: "Tok_open \<notin> set (operations st)"
  proof -
    from for_tokens_pushed [OF start scan] have "set (operations st) \<subseteq> pushed" .
    from close_loop_pushed [OF this, of "rp_notation st"] no_open
    obtain rpn' where "close_loop (operations st) (rp_notation st) = Inr ([], rpn')"
      by auto
    then have "dispatch Tok_close t (snd (to_token_type h t)) st
        = Fail (extra_parentheses_happened ''close'')"
      by (simp add: dispatch_def)
    with t allowed have "process_token h t st = Fail (extra_parentheses_happened ''close'')"
      by (simp add: process_token_def is_correct_token_order_def)
    with scan show ?thesis
      by (simp add: RPN_Builder_def for_tokens_append extra_parentheses_happened_def)
  qed
  have "open": "RPN_Builder h ts = Fail ''Found extra open parentheses.''"
    if scan: "for_tokens h ts scan_start = Go st"
      and "operand_count st \<noteq> 0" and "Tok_open \<in> set (operations st)"
  proof -
    from for_tokens_pushed [OF start scan] have "set (operations st) \<subseteq> pushed" .
    from drain_open [OF this that(3), of "rp_notation st"] scan that(2) show ?thesis
      by (simp add: RPN_Builder_def extra_parentheses_happened_def)
  qed
  have none: "RPN_Builder h ts = Fail ''Expression does not contain any operands.''"
    if "for_tokens h ts scan_start = Go st" and "operand_count st = 0"
    using that by (simp add: RPN_Builder_def no_operands_found_def)
  have empty: "ops = []" if "RPN_Builder h ts = Go (ops, rpn)"
    using that
    by (auto simp: RPN_Builder_def split: outcome.splits if_splits dest: drain_leaves_empty)
  have ex1: "\<exists>r. calculate (ideal order) (Some ''2 + 3)'') = Some (Returns r) \<and> ok r = False"
    by (simp add: calculate_def tokens_2_plus_3_close
        failed_builder_not_ok [OF builder_2_plus_3_close])
  have ex2: "\<exists>r. calculate (ideal order) (Some ''(2 + 3'') = Some (Returns r) \<and> ok r = False"
    by (simp add: calculate_def tokens_open_2_plus_3
        failed_builder_not_ok [OF builder_open_2_plus_3])
  show ?thesis
    using close "open" none empty ex1 ex2 builder_2_plus_3_close builder_open_2_plus_3
    by (simp add: scan_start_def)
qed

theorem parenthesis_mismatch_witness:
  "for_tokens (ideal Second_arg_first) [''2'', ''+'', ''3''] scan_start =
       Go \<lparr>rp_notation = [Number 2, Number 3], prev_token = ''3'', prev_ttype = Tok_number,
           operations = [Tok_add], operand_count = 2\<rparr>
   \<and> curr_ttype_of (ideal Second_arg_first) Tok_number '')'' = Tok_close
   \<and> Tok_close \<in> prev_curr_token_map Tok_number
   \<and> Tok_open \<notin> set [Tok_add]
   \<and> RPN_Builder (ideal Second_arg_first) ([''2'', ''+'', ''3''] @ '')'' # [])
       = Fail ''Found extra close parentheses.''
   \<and> for_tokens (ideal Second_arg_first) [''('', ''2'', ''+'', ''3''] scan_start =
       Go \<lparr>rp_notation = [Number 2, Number 3], prev_token = ''3'', prev_ttype = Tok_number,
           operations = [Tok_add, Tok_open], operand_count = 2\<rparr>
   \<and> (2 :: nat) \<noteq> 0
   \<and> Tok_open \<in> set [Tok_add, Tok_open]
   \<and> RPN_Builder (ideal Second_arg_first) [''('', ''2'', ''+'', ''3'']
       = Fail ''Found extra open parentheses.''
   \<and> for_tokens (ideal Second_arg_first) [''(''] scan_start =
       Go \<lparr>rp_notation = [], prev_token = ''('', prev_ttype = Tok_open,
           operations = [Tok_open], operand_count = 0\<rparr>
   \<and> RPN_Builder (ideal Second_arg_first) [''('']
       = Fail ''Expression does not contain any operands.''
   \<and> RPN_Builder (ideal Second_arg_first) [''2'', ''+'', ''3'']
       = Go ([], [Number 2, Number 3, Oper Op_add])"
proof -
  have cl: "curr_ttype_of (ideal Second_arg_first) Tok_number '')'' = Tok_close"
    by (simp add: curr_ttype_of_def to_token_type_def tokens_map_def)
  have accepted: "RPN_Builder (ideal Second_arg_first) [''2'', ''+'', ''3'']
      = Go ([], [Number 2, Number 3, Oper Op_add])"
    by (simp del: for_tokens.simps add: RPN_Builder_def scan_2_plus_3)
  have none: "RPN_Builder (ideal Second_arg_first) [''('']
      = Fail ''Expression does not contain any operands.''"
    using parenthesis_mismatch
      [of "ideal Second_arg_first" "[''('']"
        "\<lparr>rp_notation = [], prev_token = ''('', prev_ttype = Tok_open,
          operations = [Tok_open], operand_count = 0\<rparr>"]
    by (simp del: for_tokens.simps add: scan_lone_open)
  show ?thesis
    using parenthesis_mismatch
      [of "ideal Second_arg_first" "[''2'', ''+'', ''3'']"
        "\<lparr>rp_notation = [Number 2, Number 3], prev_token = ''3'', prev_ttype = Tok_number,
          operations = [Tok_add], operand_count = 2\<rparr>" "'')''" "[]"]
      parenthesis_mismatch
      [of "ideal Second_arg_first" "[''('', ''2'', ''+'', ''3'']"
        "\<lparr>rp_notation = [Number 2, Number 3], prev_token = ''3'', prev_ttype = Tok_number,
          operations = [Tok_add, Tok_open], operand_count = 2\<rparr>"]
      cl accepted none
    by (simp del: for_tokens.simps add: scan_2_plus_3 scan_open_2_plus_3 scan_lone_open)
qed

section \<open>Unary minus\<close>

lemma curr_ttype_of_un_min_iff:
  "curr_ttype_of h prev token = Tok_un_min
     \<longleftrightarrow> fst (to_token_type h token) = Tok_sub \<and> (prev = Tok_undefined \<or> prev = Tok_open)"
  using to_token_type_not_un_min [of h token] by (auto simp: curr_ttype_of_def Let_def)

lemma tokens_minus_3_plus_5:
  "getTokens (ideal order) (Some ''-3 + 5'') = Some [''-'', ''3'', ''+'', ''5'']"
  by (simp add: getTokens_def tokens_loop.simps char_defs ideal_defs Let_def)

lemma builder_minus_3_plus_5:
  "RPN_Builder (ideal order) [''-'', ''3'', ''+'', ''5'']
     = Go ([], [Number 3, Oper Op_un_min, Number 5, Oper Op_add])"
  by (simp add: builder_defs char_defs ideal_defs Let_def)

lemma after_minus_3_plus_5:
  "after_tokens (ideal order) [''-'', ''3'', ''+'', ''5'']
     = Returns \<lparr>what = [], result = 2, ok = True\<rparr>"
  by (cases order; simp add: after_tokens_def builder_minus_3_plus_5)
     (simp_all add: eval_defs ideal_def)

lemma tokens_3_minus_minus_5:
  "getTokens (ideal order) (Some ''3 - -5'') = Some [''3'', ''-'', ''-'', ''5'']"
  by (simp add: getTokens_def tokens_loop.simps char_defs ideal_defs Let_def)

lemma builder_3_minus_minus_5:
  "RPN_Builder (ideal order) [''3'', ''-'', ''-'', ''5'']
     = Fail (''Incorrect order of operands and operations in the expression.'' @ [CHR 0x0A]
         @ ''The subtraction sign '' @ quoted ''-''
         @ '' cannot be after the subtraction sign '' @ quoted ''-'')"
  by (simp add: builder_defs char_defs ideal_defs Let_def)

text \<open>
  C3, as stated, fails on its own second example. In \<^verbatim>\<open>3 - -5\<close> the second minus
  follows a token of type \<^verbatim>\<open>sub\<close>, which is neither \<^verbatim>\<open>undefined\<close> nor \<^verbatim>\<open>open\<close>, so
  it stays a \<^verbatim>\<open>sub\<close>; the table of permitted neighbours has no \<^verbatim>\<open>sub\<close> after a
  \<^verbatim>\<open>sub\<close>, and the call returns \<open>ok = False\<close>, not the value 8.
\<close>

theorem minus_after_minus_counterexample:
  "getTokens (ideal Second_arg_first) (Some ''3 - -5'') = Some [''3'', ''-'', ''-'', ''5'']
   \<and> curr_ttype_of (ideal Second_arg_first) Tok_sub ''-'' = Tok_sub
   \<and> calculate (ideal Second_arg_first) (Some ''3 - -5'')
       = Some (Returns \<lparr>what = ''Incorrect expression'', result = 0, ok = False\<rparr>)"
proof -
  have "curr_ttype_of (ideal Second_arg_first) Tok_sub ''-'' = Tok_sub"
    by (simp add: curr_ttype_of_def to_token_type_def tokens_map_def)
  moreover have "h_zero (ideal Second_arg_first) = 0"
    by (simp add: ideal_def)
  ultimately show ?thesis
    using failed_builder_not_ok [OF builder_3_minus_minus_5 [of Second_arg_first]]
    by (simp add: calculate_def tokens_3_minus_minus_5 incorrect_expression_def)
qed

text \<open>
  C3, amended. The current token becomes \<^verbatim>\<open>un_min\<close> exactly when \<open>to_token_type\<close>
  gives \<^verbatim>\<open>sub\<close> for it and the previous type is \<^verbatim>\<open>undefined\<close> or \<^verbatim>\<open>open\<close>. Under
  this rule \<^verbatim>\<open>-3 + 5\<close> evaluates to \<open>ok = True\<close> with the value 2, whichever argument
  of a binary operation is evaluated first; and \<^verbatim>\<open>3 - -5\<close> is rejected: the builder
  fails with the token-order message for a subtraction sign after a subtraction
  sign, and \<open>calculate\<close> returns \<open>ok = False\<close>.
\<close>

theorem unary_minus_rule:
  "(curr_ttype_of h prev token = Tok_un_min
      \<longleftrightarrow> fst (to_token_type h token) = Tok_sub \<and> (prev = Tok_undefined \<or> prev = Tok_open))
   \<and> calculate (ideal order) (Some ''-3 + 5'')
       = Some (Returns \<lparr>what = [], result = 2, ok = True\<rparr>)
   \<and> RPN_Builder (ideal order) [''3'', ''-'', ''-'', ''5'']
       = Fail (''Incorrect order of operands and operations in the expression.'' @ [CHR 0x0A]
           @ ''The subtraction sign '' @ quoted ''-''
           @ '' cannot be after the subtraction sign '' @ quoted ''-'')
   \<and> (\<exists>r. calculate (ideal order) (Some ''3 - -5'') = Some (Returns r) \<and> ok r = False)"
proof -
  have "calculate (ideal order) (Some ''-3 + 5'')
      = Some (Returns \<lparr>what = [], result = 2, ok = True\<rparr>)"
    by (simp add: calculate_def tokens_minus_3_plus_5 after_minus_3_plus_5)
  moreover have "\<exists>r. calculate (ideal order) (Some ''3 - -5'') = Some (Returns r) \<and> ok r = False"
    by (simp add: calculate_def tokens_3_minus_minus_5
        failed_builder_not_ok [OF builder_3_minus_minus_5])
  ultimately show ?thesis
    using curr_ttype_of_un_min_iff [of h prev token] builder_3_minus_minus_5 [of order]
    by simp
qed

section \<open>The message of a failed compilation\<close>

text \<open>
  C4 at the text \<^verbatim>\<open>(2 + 3\<close>. The builder fails and its own description of the
  failure, the one \<^verbatim>\<open>what()\<close> would return, is \<^verbatim>\<open>Found extra open parentheses.\<close>; the
  \<open>Result\<close> of \<open>calculate\<close> carries the fixed text \<^verbatim>\<open>Incorrect expression\<close> instead
  (line 639 never calls \<^verbatim>\<open>builder.what()\<close>).
\<close>

theorem builder_message_is_dropped:
  "RPN_Builder (ideal order) [''('', ''2'', ''+'', ''3''] = Fail ''Found extra open parentheses.''
   \<and> calculate (ideal order) (Some ''(2 + 3'')
       = Some (Returns \<lparr>what = ''Incorrect expression'', result = 0, ok = False\<rparr>)"
proof -
  have "h_zero (ideal order) = 0"
    by (simp add: ideal_def)
  then show ?thesis
    using failed_builder_not_ok [OF builder_open_2_plus_3 [of order]]
    by (simp add: calculate_def tokens_open_2_plus_3 builder_open_2_plus_3
        incorrect_expression_def)
qed

section \<open>The value stack at the end\<close>

lemma tokens_x_in_parentheses:
  "getTokens (ideal order) (Some ''(x)'') = Some [''('', ''x'', '')'']"
  by (simp add: getTokens_def tokens_loop.simps char_defs ideal_defs Let_def)

lemma builder_x_in_parentheses:
  "RPN_Builder (ideal order) [''('', ''x'', '')''] = Go ([], [Name ''x''])"
  by (simp add: builder_defs char_defs ideal_defs Let_def)

text \<open>
  C5 at the text \<^verbatim>\<open>(x)\<close>. The builder accepts it, the evaluator's loop ends without a
  throw and with no value on the stack, and \<open>calculate\<close> does not return a failure:
  it goes on to \<^verbatim>\<open>stack.top()\<close> of the empty stack.
\<close>

theorem empty_stack_is_not_reported:
  "RPN_Builder (ideal order) [''('', ''x'', '')''] = Go ([], [Name ''x''])
   \<and> visit_items (ideal order) [Name ''x''] [] = Inr []
   \<and> calculate (ideal order) (Some ''(x)'') = Some Top_of_empty_stack"
  by (simp add: calculate_def tokens_x_in_parentheses after_tokens_def builder_x_in_parentheses)

section \<open>The two operands of a binary operation\<close>

text \<open>
  C2, as stated, fails where the second argument of
  \<^verbatim>\<open>op(pop_value(stack), pop_value(stack))\<close> is evaluated first. On the stack with 5 on
  top of 3 (5 pushed last) the subtraction gives \<open>3 - 5\<close> and the division \<open>3 / 5\<close>;
  with 3 on top of 2 the power gives \<open>2 ^ 3\<close>. The value pushed last is \<open>b\<close>, the
  right-hand side, and it is the first one popped.
\<close>

theorem last_pushed_is_right_operand_counterexample:
  "h_order (ideal Second_arg_first) = Second_arg_first
   \<and> calculate_op (ideal Second_arg_first) Op_sub [5, 3] = Inr (- 2, [])
   \<and> calculate_op (ideal Second_arg_first) Op_div [5, 3] = Inr (3 / 5, [])
   \<and> calculate_op (ideal Second_arg_first) Op_pow [3, 2] = Inr (8, [])"
  by (simp add: eval_defs ideal_def ideal_pow_def)

text \<open>
  C2, amended. With \<open>x\<close> the value pushed last (the top) and \<open>y\<close> the one below it,
  every \<^verbatim>\<open>sub\<close>, \<^verbatim>\<open>div\<close> and \<^verbatim>\<open>pow\<close> computes \<open>a OP b\<close> with \<open>a\<close> and \<open>b\<close> the values of
  the first and the second \<^verbatim>\<open>pop_value(stack)\<close> of the argument list. Where the
  second argument is evaluated first, \<open>b\<close> is popped first: \<open>b = x\<close>, \<open>a = y\<close>, the
  result is \<open>y OP x\<close>, and the value pushed last is the right-hand side (the divisor,
  the exponent). Where the first argument is evaluated first, \<open>a = x\<close>, \<open>b = y\<close> and
  the result is \<open>x OP y\<close>. The division tests \<open>b\<close> against zero before dividing.
\<close>

theorem binary_operation_operands:
  "(h_order h = Second_arg_first \<longrightarrow>
      calculate_op h Op_sub (x # y # stack) = Inr (h_sub h y x, stack)
      \<and> calculate_op h Op_pow (x # y # stack) = Inr (h_pow h y x, stack)
      \<and> calculate_op h Op_div (x # y # stack)
          = (if h_eq h x (h_zero h) then Inl division_on_zero else Inr (h_div h y x, stack)))
   \<and> (h_order h = First_arg_first \<longrightarrow>
      calculate_op h Op_sub (x # y # stack) = Inr (h_sub h x y, stack)
      \<and> calculate_op h Op_pow (x # y # stack) = Inr (h_pow h x y, stack)
      \<and> calculate_op h Op_div (x # y # stack)
          = (if h_eq h y (h_zero h) then Inl division_on_zero else Inr (h_div h x y, stack)))"
  by (simp add: binary_operation_def pop_value_def)

theorem binary_operation_operands_witness:
  "h_order (ideal Second_arg_first) = Second_arg_first
   \<and> calculate_op (ideal Second_arg_first) Op_sub [5, 3] = Inr (3 - 5, [])
   \<and> calculate_op (ideal Second_arg_first) Op_pow [3, 2] = Inr (2 ^ 3, [])
   \<and> calculate_op (ideal Second_arg_first) Op_div [0, 5] = Inl ''Divizion on zero is not defined''
   \<and> h_order (ideal First_arg_first) = First_arg_first
   \<and> calculate_op (ideal First_arg_first) Op_sub [5, 3] = Inr (5 - 3, [])
   \<and> calculate_op (ideal First_arg_first) Op_pow [3, 2] = Inr (3 ^ 2, [])
   \<and> calculate_op (ideal First_arg_first) Op_div [0, 5] = Inr (0, [])"
  using binary_operation_operands [of "ideal Second_arg_first" 5 3 "[]"]
    binary_operation_operands [of "ideal Second_arg_first" 3 2 "[]"]
    binary_operation_operands [of "ideal Second_arg_first" 0 5 "[]"]
    binary_operation_operands [of "ideal First_arg_first" 5 3 "[]"]
    binary_operation_operands [of "ideal First_arg_first" 3 2 "[]"]
    binary_operation_operands [of "ideal First_arg_first" 0 5 "[]"]
  by (simp add: ideal_def ideal_pow_def division_on_zero_def)

section \<open>Precedence and the power chain\<close>

lemma tokens_2_plus_3_times_4:
  "getTokens (ideal order) (Some ''2 + 3 * 4'') = Some [''2'', ''+'', ''3'', ''*'', ''4'']"
  by (simp add: getTokens_def tokens_loop.simps char_defs ideal_defs Let_def)

lemma builder_2_plus_3_times_4:
  "RPN_Builder (ideal order) [''2'', ''+'', ''3'', ''*'', ''4'']
     = Go ([], [Number 2, Number 3, Number 4, Oper Op_mul, Oper Op_add])"
  by (simp add: builder_defs char_defs ideal_defs Let_def)

lemma after_2_plus_3_times_4:
  "after_tokens (ideal order) [''2'', ''+'', ''3'', ''*'', ''4'']
     = Returns \<lparr>what = [], result = 14, ok = True\<rparr>"
  by (cases order; simp add: after_tokens_def builder_2_plus_3_times_4)
     (simp_all add: eval_defs ideal_def)

lemma tokens_2_plus_3_in_parentheses_times_4:
  "getTokens (ideal order) (Some ''(2 + 3) * 4'')
     = Some [''('', ''2'', ''+'', ''3'', '')'', ''*'', ''4'']"
  by (simp add: getTokens_def tokens_loop.simps char_defs ideal_defs Let_def)

lemma builder_2_plus_3_in_parentheses_times_4:
  "RPN_Builder (ideal order) [''('', ''2'', ''+'', ''3'', '')'', ''*'', ''4'']
     = Go ([], [Number 2, Number 3, Oper Op_add, Number 4, Oper Op_mul])"
  by (simp add: builder_defs char_defs ideal_defs Let_def)

lemma after_2_plus_3_in_parentheses_times_4:
  "after_tokens (ideal order) [''('', ''2'', ''+'', ''3'', '')'', ''*'', ''4'']
     = Returns \<lparr>what = [], result = 20, ok = True\<rparr>"
  by (cases order; simp add: after_tokens_def builder_2_plus_3_in_parentheses_times_4)
     (simp_all add: eval_defs ideal_def)

lemma tokens_power_chain:
  "getTokens (ideal order) (Some ''2 ^ 3 ^ 2'') = Some [''2'', ''^'', ''3'', ''^'', ''2'']"
  by (simp add: getTokens_def tokens_loop.simps char_defs ideal_defs Let_def)

lemma builder_power_chain:
  "RPN_Builder (ideal order) [''2'', ''^'', ''3'', ''^'', ''2'']
     = Go ([], [Number 2, Number 3, Oper Op_pow, Number 2, Oper Op_pow])"
  by (simp add: builder_defs char_defs ideal_defs Let_def)

lemma after_power_chain:
  "after_tokens (ideal order) [''2'', ''^'', ''3'', ''^'', ''2'']
     = Returns \<lparr>what = [],
         result = (case order of First_arg_first \<Rightarrow> 512 | Second_arg_first \<Rightarrow> 64),
         ok = True\<rparr>"
  by (cases order; simp add: after_tokens_def builder_power_chain)
     (simp_all add: eval_defs ideal_def ideal_pow_def)

text \<open>
  C1. \<^verbatim>\<open>2 + 3 * 4\<close> and \<^verbatim>\<open>(2 + 3) * 4\<close> evaluate to 14 and 20 under either order of
  argument evaluation. The builder's loop pops on \<^verbatim>\<open>>=\<close>, so \<^verbatim>\<open>2 ^ 3 ^ 2\<close> is compiled
  to \<^verbatim>\<open>2 3 pow 2 pow\<close>. That sequence evaluates to 64 where the second argument of
  \<^verbatim>\<open>op(pop_value(stack), pop_value(stack))\<close> is evaluated first, and to 512 where the
  first is.
\<close>

theorem power_chain_value_follows_argument_order:
  "calculate (ideal order) (Some ''2 + 3 * 4'')
     = Some (Returns \<lparr>what = [], result = 14, ok = True\<rparr>)
   \<and> calculate (ideal order) (Some ''(2 + 3) * 4'')
     = Some (Returns \<lparr>what = [], result = 20, ok = True\<rparr>)
   \<and> RPN_Builder (ideal order) [''2'', ''^'', ''3'', ''^'', ''2'']
     = Go ([], [Number 2, Number 3, Oper Op_pow, Number 2, Oper Op_pow])
   \<and> calculate (ideal Second_arg_first) (Some ''2 ^ 3 ^ 2'')
     = Some (Returns \<lparr>what = [], result = 64, ok = True\<rparr>)
   \<and> calculate (ideal First_arg_first) (Some ''2 ^ 3 ^ 2'')
     = Some (Returns \<lparr>what = [], result = 512, ok = True\<rparr>)"
  by (simp add: calculate_def
      tokens_2_plus_3_times_4 after_2_plus_3_times_4
      tokens_2_plus_3_in_parentheses_times_4 after_2_plus_3_in_parentheses_times_4
      tokens_power_chain builder_power_chain after_power_chain)

section \<open>Division by zero\<close>

lemma tokens_5_by_0: "getTokens (ideal order) (Some ''5 / 0'') = Some [''5'', ''/'', ''0'']"
  by (simp add: getTokens_def tokens_loop.simps char_defs ideal_defs Let_def)

lemma builder_5_by_0:
  "RPN_Builder (ideal order) [''5'', ''/'', ''0''] = Go ([], [Number 5, Number 0, Oper Op_div])"
  by (simp add: builder_defs char_defs ideal_defs Let_def)

lemma after_5_by_0:
  "after_tokens (ideal order) [''5'', ''/'', ''0'']
     = (case order of
          First_arg_first \<Rightarrow> Returns \<lparr>what = [], result = 0, ok = True\<rparr>
        | Second_arg_first \<Rightarrow>
            Returns \<lparr>what = ''Divizion on zero is not defined'', result = 0, ok = False\<rparr>)"
  by (cases order; simp add: after_tokens_def builder_5_by_0)
     (simp_all add: eval_defs ideal_def)

text \<open>
  C6 at the text \<^verbatim>\<open>5 / 0\<close>, compiled to \<^verbatim>\<open>5 0 div\<close>. Where the second argument of
  \<^verbatim>\<open>op(pop_value(stack), pop_value(stack))\<close> is evaluated first, \<open>b\<close> is the 0 and the
  call fails with the division message. Where the first is, \<open>b\<close> is the 5, the test
  \<^verbatim>\<open>b == 0.0\<close> passes, and the call returns \<open>ok = True\<close> with the value \<open>0 / 5\<close>.
\<close>

theorem division_by_zero_follows_argument_order:
  "calculate (ideal Second_arg_first) (Some ''5 / 0'')
     = Some (Returns \<lparr>what = ''Divizion on zero is not defined'', result = 0, ok = False\<rparr>)
   \<and> calculate (ideal First_arg_first) (Some ''5 / 0'')
     = Some (Returns \<lparr>what = [], result = 0, ok = True\<rparr>)"
  by (simp add: calculate_def tokens_5_by_0 after_5_by_0)

end
